theory Spec2Isabelle
  imports Complex_Main
begin

section \<open>Simples Nacional: brackets, annexes and nominal rates (anexos_simples.py)\<close>

text \<open>
  The module resolves, for a company under the Simples Nacional regime, the revenue bracket
  (faixa) of its trailing-twelve-month revenue (RBT12), the annex (anexo) of its activity
  code (CNAE) and the nominal rate of that annex and bracket.

  A Python float is read as the real number it denotes. Comparisons are exact on floats. A
  decimal literal and the result of a multiplication or division are rounded to the nearest
  double (\<open>fl\<close> below), so the bounds of the brackets, the rates and the two computed fields
  of the result are the doubles that the program holds. The ratio test of the Factor R
  (\<open>folha_12m / rbt12 >= 0.28\<close>) is written on the exact quotient.
  The revenues between two intervals at which the bracket lookup is evaluated below are
  finite binary fractions, hence exact floats.
  An annex is a Python string (the annotation \<open>Literal["I", ..., "V"]\<close> is not checked at
  run time, and the table is loaded from JSON), a bracket number is a Python int.
\<close>

subsection \<open>Errors\<close>

text \<open>One constructor for each place where the source raises.\<close>

datatype erro =
    ValueError_fora_do_limite
      \<comment> \<open>\<open>faixa_por_rbt12\<close>: no interval of \<open>FAIXAS\<close> holds the revenue\<close>
  | KeyError_cnae_nao_encontrado string
      \<comment> \<open>\<open>resolver_anexo_por_cnae\<close>: the code is not a key of the table\<close>
  | KeyError_aliquota_nao_encontrada string int
      \<comment> \<open>\<open>aliquota_nominal_por_anexo\<close>: no rate for the annex and bracket\<close>
  | KeyError_campo string
      \<comment> \<open>\<open>item["cnae"]\<close> on a raw record without that key\<close>
  | IndexError
      \<comment> \<open>\<open>info.anexos[0]\<close> on an empty list\<close>

subsection \<open>Floats\<close>

text \<open>
  Rounding to the nearest double (IEEE 754 binary64, ties to even): a significand of 53 bits,
  and below \<open>2 powi (- 1022)\<close> the fixed spacing \<open>2 powi (- 1074)\<close> of the
  subnormal numbers. \<open>rne\<close> rounds a real to the nearest integer, ties to even;
  \<open>expoente x\<close> is the exponent of the binade of \<open>x\<close>. Overflow to infinity
  (above about \<open>1.8e308\<close>) is not modelled: no literal of the module and no field of a
  result comes near it.
\<close>

definition rne :: "real \<Rightarrow> int" where
  "rne y =
    (let f = \<lfloor>y\<rfloor>; d = y - of_int f
     in if d < 1/2 then f else if 1/2 < d then f + 1 else if even f then f else f + 1)"

definition expoente :: "real \<Rightarrow> int" where
  "expoente x = max \<lfloor>log 2 \<bar>x\<bar>\<rfloor> (- 1022)"

definition fl :: "real \<Rightarrow> real" where
  "fl x = (if x = 0 then 0
           else of_int (rne (x / 2 powi (expoente x - 52))) * 2 powi (expoente x - 52))"

subsection \<open>Constants\<close>

type_synonym Anexo = string

definition ANEXOS :: "Anexo list" where
  \<comment> \<open>the values of \<open>Anexo = Literal["I", "II", "III", "IV", "V"]\<close>\<close>
  "ANEXOS = [''I'', ''II'', ''III'', ''IV'', ''V'']"

definition FAIXAS :: "(int \<times> real \<times> real) list" where
  \<comment> \<open>the whole numbers are doubles as they stand\<close>
  "FAIXAS =
    [(1, 0.00,          180000.00),
     (2, fl 180000.01,  360000.00),
     (3, fl 360000.01,  720000.00),
     (4, fl 720000.01,  1800000.00),
     (5, fl 1800000.01, 3600000.00),
     (6, fl 3600000.01, 4800000.00)]"

definition ALIQUOTAS_NOMINAIS :: "(Anexo \<times> (int \<times> real) list) list" where
  \<comment> \<open>a dict of dicts, written as association lists with distinct keys\<close>
  "ALIQUOTAS_NOMINAIS =
    [(''I'',   [(1, fl 0.040), (2, fl 0.073), (3, fl 0.095), (4, fl 0.107), (5, fl 0.143), (6, fl 0.190)]),
     (''II'',  [(1, fl 0.045), (2, fl 0.078), (3, fl 0.100), (4, fl 0.112), (5, fl 0.147), (6, fl 0.300)]),
     (''III'', [(1, fl 0.060), (2, fl 0.112), (3, fl 0.135), (4, fl 0.160), (5, fl 0.210), (6, fl 0.330)]),
     (''IV'',  [(1, fl 0.045), (2, fl 0.090), (3, fl 0.102), (4, fl 0.140), (5, fl 0.220), (6, fl 0.330)]),
     (''V'',   [(1, fl 0.155), (2, fl 0.180), (3, fl 0.195), (4, fl 0.205), (5, fl 0.230), (6, fl 0.305)])]"

subsection \<open>The classification table\<close>

record CNAEInfo =
  cnae :: string
  descricao :: string
  anexos :: "Anexo list"
  fator_r :: bool
  natureza :: string

text \<open>
  A value as \<open>json.load\<close> gives it, for the one field that the loader coerces with
  \<open>bool(...)\<close>; \<open>bool_py\<close> is Python's truth value of such a value.
\<close>

datatype valor =
    Nulo
  | Booleano bool
  | Inteiro int
  | Numero real
  | Texto string
  | Lista "valor list"
  | Objeto "(string \<times> valor) list"

fun bool_py :: "valor \<Rightarrow> bool" where
  "bool_py Nulo = False"
| "bool_py (Booleano b) = b"
| "bool_py (Inteiro n) = (n \<noteq> 0)"
| "bool_py (Numero x) = (x \<noteq> 0)"
| "bool_py (Texto s) = (s \<noteq> [])"
| "bool_py (Lista vs) = (vs \<noteq> [])"
| "bool_py (Objeto kvs) = (kvs \<noteq> [])"

text \<open>
  A raw record of the input list: a dict whose keys may be absent (\<open>None\<close>). The other
  fields are stored as they come, so they carry the types of the dataclass.
\<close>

record item =
  item_cnae :: "string option"
  item_descricao :: "string option"
  item_anexos :: "Anexo list option"
  item_fator_r :: "valor option"
  item_natureza :: "string option"

definition get_py :: "'a option \<Rightarrow> 'a \<Rightarrow> 'a" where
  \<comment> \<open>\<open>item.get(key, default)\<close>\<close>
  "get_py v padrao = (case v of None \<Rightarrow> padrao | Some x \<Rightarrow> x)"

definition info_do_item :: "string \<Rightarrow> item \<Rightarrow> CNAEInfo" where
  \<comment> \<open>the \<open>CNAEInfo(...)\<close> built in the loop body, for a record whose code is \<open>c\<close>\<close>
  "info_do_item c it =
    \<lparr>cnae = c,
     descricao = get_py (item_descricao it) '''',
     anexos = get_py (item_anexos it) [],
     fator_r = bool_py (get_py (item_fator_r it) (Booleano False)),
     natureza = get_py (item_natureza it) ''servicos''\<rparr>"

fun carregar_laco :: "(string \<rightharpoonup> CNAEInfo) \<Rightarrow> item list \<Rightarrow> erro + (string \<rightharpoonup> CNAEInfo)" where
  \<comment> \<open>the \<open>for item in obj\<close> loop, from the table built so far\<close>
  "carregar_laco tabela [] = Inr tabela"
| "carregar_laco tabela (it # resto) =
    (case item_cnae it of
       None \<Rightarrow> Inl (KeyError_campo ''cnae'')
     | Some c \<Rightarrow> carregar_laco (tabela(c \<mapsto> info_do_item c it)) resto)"

definition carregar_tabela_cnae :: "item list \<Rightarrow> erro + (string \<rightharpoonup> CNAEInfo)" where
  "carregar_tabela_cnae obj = carregar_laco Map.empty obj"

subsection \<open>Bracket of a revenue\<close>

fun faixa_laco :: "(int \<times> real \<times> real) list \<Rightarrow> real \<Rightarrow> erro + int" where
  \<comment> \<open>the \<open>for faixa, ini, fim in FAIXAS\<close> loop over the intervals still to try\<close>
  "faixa_laco [] rbt12 = Inl ValueError_fora_do_limite"
| "faixa_laco ((faixa, ini, fim) # resto) rbt12 =
    (if ini \<le> rbt12 \<and> rbt12 \<le> fim then Inr faixa else faixa_laco resto rbt12)"

definition faixa_por_rbt12 :: "real \<Rightarrow> erro + int" where
  "faixa_por_rbt12 rbt12 = faixa_laco FAIXAS rbt12"

subsection \<open>Annex of an activity code\<close>

definition primeiro :: "'a list \<Rightarrow> erro + 'a" where
  \<comment> \<open>\<open>xs[0]\<close>\<close>
  "primeiro xs = (case xs of [] \<Rightarrow> Inl IndexError | x # _ \<Rightarrow> Inr x)"

definition informado :: "Anexo option \<Rightarrow> bool" where
  \<comment> \<open>the truth value of \<open>anexo_forcado\<close>: neither \<open>None\<close> nor the empty string\<close>
  "informado a = (case a of None \<Rightarrow> False | Some s \<Rightarrow> s \<noteq> [])"

definition resolver_anexo_por_cnae ::
  "string \<Rightarrow> real \<Rightarrow> real option \<Rightarrow> (string \<rightharpoonup> CNAEInfo) \<Rightarrow> Anexo option \<Rightarrow> erro + Anexo" where
  "resolver_anexo_por_cnae codigo rbt12 folha_12m tabela_cnae anexo_forcado =
    (if informado anexo_forcado then Inr (get_py anexo_forcado [])
     else
       (case tabela_cnae codigo of
          None \<Rightarrow> Inl (KeyError_cnae_nao_encontrado codigo)
        | Some info \<Rightarrow>
            if length (anexos info) = 1 then primeiro (anexos info)
            else if set (anexos info) = {''III'', ''V''} \<and> fator_r info then
              (case folha_12m of
                 None \<Rightarrow> Inr ''V''
               | Some folha \<Rightarrow>
                   if rbt12 \<le> 0 then Inr ''V''
                   else if folha / rbt12 \<ge> 0.28 then Inr ''III'' else Inr ''V'')
            else primeiro (anexos info)))"

subsection \<open>Nominal rate\<close>

definition aliquota_da_tabela :: "Anexo \<Rightarrow> int \<Rightarrow> real option" where
  \<comment> \<open>\<open>ALIQUOTAS_NOMINAIS[anexo][faixa]\<close>, \<open>None\<close> where Python raises KeyError\<close>
  "aliquota_da_tabela anexo faixa =
    (case map_of ALIQUOTAS_NOMINAIS anexo of
       None \<Rightarrow> None
     | Some linha \<Rightarrow> map_of linha faixa)"

definition aliquota_nominal_por_anexo :: "Anexo \<Rightarrow> real \<Rightarrow> erro + (int \<times> real)" where
  "aliquota_nominal_por_anexo anexo rbt12 =
    (case faixa_por_rbt12 rbt12 of
       Inl e \<Rightarrow> Inl e
     | Inr faixa \<Rightarrow>
         (case aliquota_da_tabela anexo faixa of
            None \<Rightarrow> Inl (KeyError_aliquota_nao_encontrada anexo faixa)
          | Some aliq \<Rightarrow> Inr (faixa, aliq)))"

record resultado =
  res_anexo :: Anexo
  res_faixa :: int
  res_aliquota_nominal :: real
  res_aliquota_nominal_pct :: real
  res_rbt12 :: real
  res_faturamento_mensal_medio :: real

definition obter_aliquota_por_cnae ::
  "string \<Rightarrow> real \<Rightarrow> real option \<Rightarrow> (string \<rightharpoonup> CNAEInfo) \<Rightarrow> Anexo option \<Rightarrow> erro + resultado" where
  "obter_aliquota_por_cnae codigo rbt12 folha_12m tabela_cnae anexo_forcado =
    (case resolver_anexo_por_cnae codigo rbt12 folha_12m tabela_cnae anexo_forcado of
       Inl e \<Rightarrow> Inl e
     | Inr anexo \<Rightarrow>
         (case aliquota_nominal_por_anexo anexo rbt12 of
            Inl e \<Rightarrow> Inl e
          | Inr (faixa, aliq_nom) \<Rightarrow>
              Inr \<lparr>res_anexo = anexo,
                   res_faixa = faixa,
                   res_aliquota_nominal = aliq_nom,
                   res_aliquota_nominal_pct = fl (aliq_nom * 100),
                   res_rbt12 = rbt12,
                   res_faturamento_mensal_medio = fl (rbt12 / 12.0)\<rparr>))"

subsection \<open>A sample table\<close>

text \<open>
  Raw records in the shape of the module's usage example: a code listed twice (first with
  annex V alone, then with III and V and a truthy Factor-R field), a commerce code fixed in
  annex I, and a record without the \<open>anexos\<close> key.
\<close>

definition dados_exemplo :: "item list" where
  "dados_exemplo =
    [\<lparr>item_cnae = Some ''62.01-5-01'', item_descricao = None, item_anexos = Some [''V''],
      item_fator_r = None, item_natureza = None\<rparr>,
     \<lparr>item_cnae = Some ''47.51-2-01'', item_descricao = None, item_anexos = Some [''I''],
      item_fator_r = Some (Booleano False), item_natureza = Some ''comercio''\<rparr>,
     \<lparr>item_cnae = Some ''62.01-5-01'', item_descricao = None,
      item_anexos = Some [''III'', ''V''],
      item_fator_r = Some (Inteiro 1), item_natureza = None\<rparr>,
     \<lparr>item_cnae = Some ''00.00-0-00'', item_descricao = None, item_anexos = None,
      item_fator_r = None, item_natureza = None\<rparr>]"

definition info_62 :: CNAEInfo where
  "info_62 = \<lparr>cnae = ''62.01-5-01'', descricao = [], anexos = [''III'', ''V''],
               fator_r = True, natureza = ''servicos''\<rparr>"

definition info_47 :: CNAEInfo where
  "info_47 = \<lparr>cnae = ''47.51-2-01'', descricao = [], anexos = [''I''],
               fator_r = False, natureza = ''comercio''\<rparr>"

definition info_00 :: CNAEInfo where
  "info_00 = \<lparr>cnae = ''00.00-0-00'', descricao = [], anexos = [],
               fator_r = False, natureza = ''servicos''\<rparr>"

definition tabela_exemplo :: "string \<rightharpoonup> CNAEInfo" where
  "tabela_exemplo =
    [''62.01-5-01'' \<mapsto> info_62, ''47.51-2-01'' \<mapsto> info_47, ''00.00-0-00'' \<mapsto> info_00]"

section \<open>Properties\<close>

subsection \<open>Floats\<close>

text \<open>Within a binade the rounding is to a multiple of its spacing.\<close>

lemma powr_powi_2: "(2::real) powr real_of_int k = 2 powi k"
  by (rule powr_real_of_int') simp_all

lemma expoente_eq:
  assumes "2 powi e \<le> \<bar>x\<bar>" and "\<bar>x\<bar> < 2 powi (e + 1)" and "- 1022 \<le> e"
  shows "expoente x = e"
proof -
  have pos: "0 < \<bar>x\<bar>"
    using assms(1) by (smt (verit) zero_less_power_int)
  have a: "(2::real) powr real_of_int e = 2 powi e"
    by (rule powr_powi_2)
  have "(2::real) powr real_of_int (e + 1) = 2 powi (e + 1)"
    by (rule powr_powi_2)
  then have b: "(2::real) powr (real_of_int e + 1) = 2 powi (e + 1)"
    by simp
  have "\<lfloor>log 2 \<bar>x\<bar>\<rfloor> = e"
    using assms(1,2) pos by (simp add: floor_log_eq_powr_iff a b)
  with assms(3) show ?thesis by (simp add: expoente_def)
qed

lemma fl_eq:
  assumes "2 powi e \<le> \<bar>x\<bar>" and "\<bar>x\<bar> < 2 powi (e + 1)" and "- 1022 \<le> e"
  shows "fl x = of_int (rne (x / 2 powi (e - 52))) * 2 powi (e - 52)"
proof -
  have "x \<noteq> 0" using assms(1) by (smt (verit) zero_less_power_int)
  then show ?thesis by (simp add: fl_def expoente_eq [OF assms])
qed

text \<open>The rounding error is at most half the spacing.\<close>

lemma rne_erro: "\<bar>real_of_int (rne y) - y\<bar> \<le> 1/2"
proof -
  have "real_of_int \<lfloor>y\<rfloor> \<le> y" and "y < real_of_int \<lfloor>y\<rfloor> + 1" by linarith+
  then show ?thesis by (auto simp add: rne_def Let_def)
qed

lemma rne_nonneg: "0 \<le> y \<Longrightarrow> 0 \<le> rne y"
proof -
  assume "0 \<le> y"
  then have "0 \<le> \<lfloor>y\<rfloor>" by simp
  then show ?thesis by (auto simp add: rne_def Let_def)
qed

lemma fl_nonneg: "0 \<le> x \<Longrightarrow> 0 \<le> fl x"
proof -
  assume x: "0 \<le> x"
  have u: "0 < (2::real) powi (expoente x - 52)" by simp
  with x have "0 \<le> x / 2 powi (expoente x - 52)" by simp
  then have "0 \<le> rne (x / 2 powi (expoente x - 52))" by (rule rne_nonneg)
  with u show ?thesis by (simp add: fl_def)
qed

lemma fl_erro: "\<bar>fl x - x\<bar> \<le> 2 powi (expoente x - 53)"
proof (cases "x = 0")
  case True
  then show ?thesis by (simp add: fl_def)
next
  case False
  let ?u = "(2::real) powi (expoente x - 52)"
  have u: "0 < ?u" by simp
  have "fl x - x = (real_of_int (rne (x / ?u)) - x / ?u) * ?u"
    using False u by (simp add: fl_def field_simps)
  then have "\<bar>fl x - x\<bar> = \<bar>real_of_int (rne (x / ?u)) - x / ?u\<bar> * ?u"
    using u by (simp add: abs_mult)
  also have "\<dots> \<le> (1/2) * ?u"
    using rne_erro [of "x / ?u"] u by (intro mult_right_mono) simp_all
  also have "(1/2) * ?u = 2 powi (expoente x - 53)"
  proof -
    have "(2::real) powi (expoente x - 52) = 2 powi (expoente x - 53 + 1)" by simp
    also have "\<dots> = 2 powi (expoente x - 53) * 2"
      by (subst power_int_add_1) simp_all
    finally show ?thesis by simp
  qed
  finally show ?thesis .
qed

lemma expoente_le:
  assumes "x \<noteq> 0" and "\<bar>x\<bar> < 2 powi (k + 1)" and "- 1022 \<le> k"
  shows "expoente x \<le> k"
proof -
  have pos: "0 < \<bar>x\<bar>" using assms(1) by simp
  have "\<bar>x\<bar> < 2 powr real_of_int (k + 1)"
    using assms(2) by (simp only: powr_powi_2)
  then have "log 2 \<bar>x\<bar> < real_of_int (k + 1)"
    using pos by (simp add: log_less_iff)
  then have "\<lfloor>log 2 \<bar>x\<bar>\<rfloor> < k + 1"
    by (simp only: floor_less_iff)
  with assms(3) show ?thesis by (simp add: expoente_def)
qed

lemma expoente_normal:
  assumes "2 powi (- 1022) \<le> \<bar>x\<bar>"
  shows "2 powi (expoente x) \<le> \<bar>x\<bar>"
proof -
  have pos: "0 < \<bar>x\<bar>"
    using assms by (smt (verit) zero_less_power_int)
  have "(2::real) powr real_of_int (- 1022) \<le> \<bar>x\<bar>"
    using assms by (simp only: powr_powi_2)
  then have "real_of_int (- 1022) \<le> log 2 \<bar>x\<bar>"
    using pos by (simp add: le_log_iff)
  then have "- 1022 \<le> \<lfloor>log 2 \<bar>x\<bar>\<rfloor>"
    by (simp add: le_floor_iff)
  then have e: "expoente x = \<lfloor>log 2 \<bar>x\<bar>\<rfloor>"
    by (simp add: expoente_def)
  have "real_of_int \<lfloor>log 2 \<bar>x\<bar>\<rfloor> \<le> log 2 \<bar>x\<bar>" by simp
  then have "2 powr real_of_int \<lfloor>log 2 \<bar>x\<bar>\<rfloor> \<le> \<bar>x\<bar>"
    using pos by (simp add: powr_le_iff)
  then show ?thesis by (simp only: e powr_powi_2)
qed

text \<open>For a number that is not subnormal the relative error is at most \<open>1 / 2 ^ 53\<close>.\<close>

lemma fl_erro_relativo:
  assumes "2 powi (- 1022) \<le> \<bar>x\<bar>"
  shows "\<bar>fl x - x\<bar> \<le> \<bar>x\<bar> / 2 ^ 53"
proof -
  have "(2::real) powi (expoente x - 53) = 2 powi (expoente x) / 2 ^ 53"
    by (simp add: power_int_diff)
  also have "\<dots> \<le> \<bar>x\<bar> / 2 ^ 53"
    using expoente_normal [OF assms] by (simp add: divide_right_mono)
  finally show ?thesis using fl_erro [of x] by linarith
qed

lemma fl_menor_1:
  assumes "0 \<le> x" and "x \<le> 1/2"
  shows "fl x < 1"
proof (cases "x = 0")
  case True
  then show ?thesis by (simp add: fl_def)
next
  case False
  have "\<bar>x\<bar> < 2 powi (- 1 + 1)" using assms by simp
  with False have "expoente x \<le> - 1" by (intro expoente_le) simp_all
  then have "(2::real) powi (expoente x - 53) \<le> 2 powi (- 54)"
    by (intro power_int_increasing) simp_all
  also have "\<dots> < 1/2" by (simp add: power_int_minus)
  finally have "(2::real) powi (expoente x - 53) < 1/2" .
  with fl_erro [of x] assms show ?thesis by linarith
qed

text \<open>Below \<open>2 powi (k + 1)\<close> the error is at most \<open>2 powi (k - 53)\<close>.\<close>

lemma fl_erro_abaixo:
  assumes "\<bar>x\<bar> < 2 powi (k + 1)" and "- 1022 \<le> k"
  shows "\<bar>fl x - x\<bar> \<le> 2 powi (k - 53)"
proof (cases "x = 0")
  case True
  then show ?thesis by (simp add: fl_def)
next
  case False
  with assms have "expoente x \<le> k" by (intro expoente_le)
  then have "(2::real) powi (expoente x - 53) \<le> 2 powi (k - 53)"
    by (intro power_int_increasing) simp_all
  with fl_erro [of x] show ?thesis by linarith
qed

text \<open>
  The doubles of the literals used below, as Python prints them with
  \<open>float.as_integer_ratio\<close>.
\<close>

lemma fl_180000_01: "fl 180000.01 = 773094156229673 / 2 ^ 32"
  by (subst fl_eq [of 17]) (simp_all add: power_int_minus rne_def Let_def)

lemma fl_360000_01: "fl 360000.01 = 1546188269509673 / 2 ^ 32"
  by (subst fl_eq [of 18]) (simp_all add: power_int_minus rne_def Let_def)

lemma fl_720000_01: "fl 720000.01 = 3092376496069673 / 2 ^ 32"
  by (subst fl_eq [of 19]) (simp_all add: power_int_minus rne_def Let_def)

lemma fl_1800000_01: "fl 1800000.01 = 7730941175749673 / 2 ^ 32"
  by (subst fl_eq [of 20]) (simp_all add: power_int_minus rne_def Let_def)

lemma fl_3600000_01: "fl 3600000.01 = 1932735288568709 / 2 ^ 29"
  by (subst fl_eq [of 21]) (simp_all add: power_int_minus rne_def Let_def)

lemma fl_0_112: "fl 0.112 = 8070450532247929 / 2 ^ 56"
  by (subst fl_eq [of "- 4"]) (simp_all add: power_int_minus rne_def Let_def)

lemma fl_0_095: "fl 0.095 = 3422735716801577 / 2 ^ 55"
  by (subst fl_eq [of "- 4"]) (simp_all add: power_int_minus rne_def Let_def)

text \<open>The same, with the literals as the simplifier writes them.\<close>

lemma fl_faixas:
  "fl (18000001 / 100) = 773094156229673 / 2 ^ 32"
  "fl (36000001 / 100) = 1546188269509673 / 2 ^ 32"
  "fl (72000001 / 100) = 3092376496069673 / 2 ^ 32"
  "fl (180000001 / 100) = 7730941175749673 / 2 ^ 32"
  "fl (360000001 / 100) = 1932735288568709 / 2 ^ 29"
  using fl_180000_01 fl_360000_01 fl_720000_01 fl_1800000_01 fl_3600000_01
  by simp_all

subsection \<open>Brackets\<close>

text \<open>The loop over the six intervals, unfolded.\<close>

lemma faixa_por_rbt12_casos:
  "faixa_por_rbt12 r =
    (if 0 \<le> r \<and> r \<le> 180000 then Inr 1
     else if fl 180000.01 \<le> r \<and> r \<le> 360000 then Inr 2
     else if fl 360000.01 \<le> r \<and> r \<le> 720000 then Inr 3
     else if fl 720000.01 \<le> r \<and> r \<le> 1800000 then Inr 4
     else if fl 1800000.01 \<le> r \<and> r \<le> 3600000 then Inr 5
     else if fl 3600000.01 \<le> r \<and> r \<le> 4800000 then Inr 6
     else Inl ValueError_fora_do_limite)"
  by (simp add: faixa_por_rbt12_def FAIXAS_def)

lemma faixa_por_rbt12_intervalo:
  "faixa_por_rbt12 r = Inr f \<Longrightarrow> f \<in> {1..6}"
  by (simp add: faixa_por_rbt12_casos split: if_splits)

text \<open>Outside the closed domain there is no bracket.\<close>

lemma faixa_por_rbt12_fora:
  "r < 0 \<or> 4800000 < r \<Longrightarrow> faixa_por_rbt12 r = Inl ValueError_fora_do_limite"
  by (elim disjE) (simp_all add: faixa_por_rbt12_casos fl_faixas)

text \<open>A revenue that has a bracket lies in the closed domain.\<close>

lemma faixa_por_rbt12_dominio:
  assumes "faixa_por_rbt12 r = Inr f"
  shows "0 \<le> r \<and> r \<le> 4800000"
proof (rule ccontr)
  assume "\<not> (0 \<le> r \<and> r \<le> 4800000)"
  then have "r < 0 \<or> 4800000 < r" by linarith
  then have "faixa_por_rbt12 r = Inl ValueError_fora_do_limite"
    by (rule faixa_por_rbt12_fora)
  with assms show False by simp
qed

text \<open>
  The two sides of a boundary, as the doubles of the literals, go to adjacent brackets, at
  the first boundary and at the last.
\<close>

lemma faixa_por_rbt12_limites:
  "faixa_por_rbt12 180000.00 = Inr 1 \<and> faixa_por_rbt12 (fl 180000.01) = Inr 2 \<and>
   faixa_por_rbt12 3600000.00 = Inr 5 \<and> faixa_por_rbt12 (fl 3600000.01) = Inr 6"
  by (simp add: faixa_por_rbt12_casos fl_faixas)

text \<open>
  Claim C1: for every revenue \<open>r\<close> with \<open>0 \<le> r \<le> 4800000\<close>, \<open>faixa_por_rbt12\<close> returns
  exactly one bracket in 1..6, and the six intervals partition the closed domain without gaps
  or overlaps. The intervals of \<open>FAIXAS\<close> are closed and start one cent above the end of the
  one before, so a revenue strictly between \<open>180000.00\<close> and \<open>180000.01\<close> lies in none of
  them: at \<open>180000.0078125\<close> (that is \<open>180000 + 1/128\<close>, inside the domain) the function
  raises the ValueError whose message says the revenue is outside 0 to 4.8 million.
\<close>

theorem faixa_por_rbt12_lacuna:
  "0 \<le> (180000.0078125::real) \<and> (180000.0078125::real) \<le> 4800000 \<and>
   faixa_por_rbt12 180000.0078125 = Inl ValueError_fora_do_limite"
  by (simp add: faixa_por_rbt12_casos fl_faixas)

text \<open>
  Claim C2: \<open>faixa_por_rbt12\<close> fails if and only if the revenue is outside
  \<open>[0, 4800000]\<close>. It does fail outside (\<open>faixa_por_rbt12_fora\<close>), but it also fails
  inside, in the gaps between consecutive intervals: at \<open>720000.00390625\<close>
  (that is \<open>720000 + 1/256\<close>) the result is the same ValueError.
\<close>

theorem faixa_por_rbt12_erro_no_dominio:
  "0 \<le> (720000.00390625::real) \<and> (720000.00390625::real) \<le> 4800000 \<and>
   faixa_por_rbt12 720000.00390625 = Inl ValueError_fora_do_limite"
  by (simp add: faixa_por_rbt12_casos fl_faixas)

subsection \<open>Loading the classification table\<close>

lemma carregar_laco_total:
  "\<forall>x \<in> set xs. item_cnae x \<noteq> None \<Longrightarrow> \<exists>t. carregar_laco tabela xs = Inr t"
  by (induction xs arbitrary: tabela) auto

lemma carregar_laco_append:
  "carregar_laco tabela (xs @ ys) =
     (case carregar_laco tabela xs of Inl e \<Rightarrow> Inl e | Inr t \<Rightarrow> carregar_laco t ys)"
  by (induction xs arbitrary: tabela) (auto split: option.splits)

lemma carregar_laco_outros_codigos:
  "\<forall>x \<in> set xs. item_cnae x \<noteq> None \<and> item_cnae x \<noteq> Some c \<Longrightarrow>
   \<exists>t. carregar_laco tabela xs = Inr t \<and> t c = tabela c"
proof (induction xs arbitrary: tabela)
  case Nil
  then show ?case by simp
next
  case (Cons x xs)
  then obtain k where k: "item_cnae x = Some k" "k \<noteq> c" by auto
  from Cons.prems have "\<forall>y \<in> set xs. item_cnae y \<noteq> None \<and> item_cnae y \<noteq> Some c" by simp
  then obtain t where t: "carregar_laco (tabela(k \<mapsto> info_do_item k x)) xs = Inr t"
      and tc: "t c = (tabela(k \<mapsto> info_do_item k x)) c"
    using Cons.IH by blast
  from k(2) tc have "t c = tabela c" by simp
  with t k(1) show ?case by simp
qed

subsection \<open>The sample table\<close>

lemma carregar_dados_exemplo: "carregar_tabela_cnae dados_exemplo = Inr tabela_exemplo"
  by (simp add: carregar_tabela_cnae_def dados_exemplo_def tabela_exemplo_def info_do_item_def
      get_py_def info_62_def info_47_def info_00_def fun_upd_twist)

lemma tabela_exemplo_62: "tabela_exemplo ''62.01-5-01'' = Some info_62"
  by (simp add: tabela_exemplo_def)

lemma tabela_exemplo_47: "tabela_exemplo ''47.51-2-01'' = Some info_47"
  by (simp add: tabela_exemplo_def)

lemma tabela_exemplo_00: "tabela_exemplo ''00.00-0-00'' = Some info_00"
  by (simp add: tabela_exemplo_def)

text \<open>The entry of a code is the record built from the last item that carries the code.\<close>

lemma carregar_tabela_cnae_ultimo_item:
  assumes "obj = antes @ anterior # meio @ posterior # depois"
    and "item_cnae anterior = Some c"
    and "item_cnae posterior = Some c"
    and "\<forall>x \<in> set depois. item_cnae x \<noteq> Some c"
    and "\<forall>x \<in> set obj. item_cnae x \<noteq> None"
  shows "\<exists>t. carregar_tabela_cnae obj = Inr t \<and> t c = Some (info_do_item c posterior)"
proof -
  let ?pre = "antes @ anterior # meio"
  have obj: "obj = ?pre @ posterior # depois"
    using assms(1) by simp
  have "\<forall>x \<in> set ?pre. item_cnae x \<noteq> None"
    using assms(5) obj by auto
  then obtain t1 where t1: "carregar_laco Map.empty ?pre = Inr t1"
    using carregar_laco_total by blast
  have "\<forall>x \<in> set depois. item_cnae x \<noteq> None \<and> item_cnae x \<noteq> Some c"
    using assms(4,5) obj by auto
  then obtain t where t: "carregar_laco (t1(c \<mapsto> info_do_item c posterior)) depois = Inr t"
      and tc: "t c = (t1(c \<mapsto> info_do_item c posterior)) c"
    using carregar_laco_outros_codigos by blast
  have "carregar_tabela_cnae obj = Inr t"
    unfolding carregar_tabela_cnae_def obj carregar_laco_append [of _ ?pre] t1
    using assms(3) t by simp
  with tc show ?thesis by simp
qed

text \<open>
  Claim C8: when the input of \<open>carregar_tabela_cnae\<close> holds two records with the same
  code, the table maps the code to a record whose every field comes from the later one (the
  last one with that code): its description, its annexes, the truth value of its Factor-R
  field and its nature, each with the default of the loader when the later record lacks the
  key. Nothing of the earlier record is kept.
\<close>

theorem carregar_tabela_cnae_ultimo_vence:
  assumes "obj = antes @ anterior # meio @ posterior # depois"
    and "item_cnae anterior = Some c"
    and "item_cnae posterior = Some c"
    and "\<forall>x \<in> set depois. item_cnae x \<noteq> Some c"
    and "\<forall>x \<in> set obj. item_cnae x \<noteq> None"
  shows "\<exists>t. carregar_tabela_cnae obj = Inr t \<and>
           t c = Some
             \<lparr>cnae = c,
              descricao = (case item_descricao posterior of None \<Rightarrow> [] | Some d \<Rightarrow> d),
              anexos = (case item_anexos posterior of None \<Rightarrow> [] | Some xs \<Rightarrow> xs),
              fator_r = (case item_fator_r posterior of None \<Rightarrow> False | Some v \<Rightarrow> bool_py v),
              natureza = (case item_natureza posterior of None \<Rightarrow> ''servicos'' | Some n \<Rightarrow> n)\<rparr>"
proof -
  have "info_do_item c posterior =
      \<lparr>cnae = c,
       descricao = (case item_descricao posterior of None \<Rightarrow> [] | Some d \<Rightarrow> d),
       anexos = (case item_anexos posterior of None \<Rightarrow> [] | Some xs \<Rightarrow> xs),
       fator_r = (case item_fator_r posterior of None \<Rightarrow> False | Some v \<Rightarrow> bool_py v),
       natureza = (case item_natureza posterior of None \<Rightarrow> ''servicos'' | Some n \<Rightarrow> n)\<rparr>"
    by (simp add: info_do_item_def get_py_def split: option.splits)
  with carregar_tabela_cnae_ultimo_item [OF assms] show ?thesis by simp
qed

text \<open>
  In the sample data the code 62.01-5-01 comes first with annex V alone and no Factor-R field,
  and later with III and V and a truthy Factor-R field: the table holds the later record, with
  the defaults for the description and the nature that it lacks.
\<close>

theorem carregar_tabela_cnae_ultimo_vence_witness:
  "map item_cnae dados_exemplo =
     [Some ''62.01-5-01'', Some ''47.51-2-01'', Some ''62.01-5-01'', Some ''00.00-0-00'']
   \<and> map item_anexos dados_exemplo = [Some [''V''], Some [''I''], Some [''III'', ''V''], None]
   \<and> (\<exists>t. carregar_tabela_cnae dados_exemplo = Inr t \<and>
         t ''62.01-5-01'' =
           Some \<lparr>cnae = ''62.01-5-01'', descricao = [], anexos = [''III'', ''V''],
                 fator_r = True, natureza = ''servicos''\<rparr>)"
proof -
  have d: "dados_exemplo = [] @ (dados_exemplo ! 0) # [dados_exemplo ! 1] @ (dados_exemplo ! 2)
        # drop 3 dados_exemplo"
    by (simp add: dados_exemplo_def)
  have h1: "item_cnae (dados_exemplo ! 0) = Some ''62.01-5-01''"
    and h2: "item_cnae (dados_exemplo ! 2) = Some ''62.01-5-01''"
    and h3: "\<forall>x \<in> set (drop 3 dados_exemplo). item_cnae x \<noteq> Some ''62.01-5-01''"
    and h4: "\<forall>x \<in> set dados_exemplo. item_cnae x \<noteq> None"
    by (simp_all add: dados_exemplo_def)
  have m: "map item_cnae dados_exemplo =
     [Some ''62.01-5-01'', Some ''47.51-2-01'', Some ''62.01-5-01'', Some ''00.00-0-00'']"
    and a: "map item_anexos dados_exemplo = [Some [''V''], Some [''I''], Some [''III'', ''V''], None]"
    by (simp_all add: dados_exemplo_def)
  have p: "dados_exemplo ! 2 =
      \<lparr>item_cnae = Some ''62.01-5-01'', item_descricao = None,
       item_anexos = Some [''III'', ''V''],
       item_fator_r = Some (Inteiro 1), item_natureza = None\<rparr>"
    by (simp add: dados_exemplo_def)
  from carregar_tabela_cnae_ultimo_vence [OF d h1 h2 h3 h4]
  have "\<exists>t. carregar_tabela_cnae dados_exemplo = Inr t \<and>
         t ''62.01-5-01'' =
           Some \<lparr>cnae = ''62.01-5-01'', descricao = [], anexos = [''III'', ''V''],
                 fator_r = True, natureza = ''servicos''\<rparr>"
    by (simp add: p)
  with m a show ?thesis by (intro conjI)
qed

subsection \<open>Annex resolution\<close>

text \<open>A list whose set of elements is \<open>{III, V}\<close> has at least two elements.\<close>

lemma conjunto_III_V_nao_unitario:
  "set xs = {''III'', ''V''} \<Longrightarrow> length xs \<noteq> 1"
proof
  assume s: "set xs = {''III'', ''V''}" and l: "length xs = 1"
  from l obtain x where "xs = [x]" by (cases xs) auto
  with s have "{x} = {''III'', ''V''}" by simp
  then have "''III'' \<in> {x}" and "''V'' \<in> {x}" by blast+
  then have "''III'' = ''V''" by (metis singletonD)
  then show False by simp
qed

lemma resolver_pela_linha:
  assumes "tabela_cnae codigo = Some info"
    and "set (anexos info) = {''III'', ''V''}"
    and "fator_r info"
  shows "resolver_anexo_por_cnae codigo rbt12 folha_12m tabela_cnae None =
     (case folha_12m of
                 None \<Rightarrow> Inr ''V''
               | Some folha \<Rightarrow>
                   if rbt12 \<le> 0 then Inr ''V''
                   else if folha / rbt12 \<ge> 0.28 then Inr ''III'' else Inr ''V'')"
proof -
  have "length (anexos info) \<noteq> 1"
    using assms(2) by (rule conjunto_III_V_nao_unitario)
  then show ?thesis
    unfolding resolver_anexo_por_cnae_def informado_def
    by (simp only: assms option.case if_False if_True simp_thms)
qed

text \<open>
  Claim C4: with a forced annex, \<open>resolver_anexo_por_cnae\<close> returns it unchanged, for
  every code (in the table or not), every revenue and every payroll: the table is not looked
  at. The test of the source is the truth value of the argument, so the forced annex is any
  non-empty string; each of the five annexes is one.
\<close>

theorem resolver_anexo_forcado:
  "a \<noteq> [] \<Longrightarrow> resolver_anexo_por_cnae codigo rbt12 folha_12m tabela_cnae (Some a) = Inr a"
  by (simp add: resolver_anexo_por_cnae_def informado_def get_py_def)

text \<open>A code that is not in the table, with a revenue above the limit.\<close>

theorem resolver_anexo_forcado_witness:
  "''IV'' \<noteq> [] \<and>
   resolver_anexo_por_cnae ''99.99-9-99'' 5000000 None tabela_exemplo (Some ''IV'') = Inr ''IV''"
  using resolver_anexo_forcado [of "''IV''" "''99.99-9-99''" 5000000 None tabela_exemplo]
  by simp

text \<open>
  Claim C7: for a record whose list of candidate annexes has exactly one entry,
  \<open>resolver_anexo_por_cnae\<close> without a forced annex returns that entry, whatever the
  revenue and the payroll.
\<close>

theorem resolver_anexo_unico:
  assumes "tabela_cnae codigo = Some info" and "anexos info = [a]"
  shows "resolver_anexo_por_cnae codigo rbt12 folha_12m tabela_cnae None = Inr a"
  using assms by (simp add: resolver_anexo_por_cnae_def informado_def primeiro_def)

text \<open>The commerce code of the sample table.\<close>

theorem resolver_anexo_unico_witness:
  "tabela_exemplo ''47.51-2-01'' = Some info_47 \<and> anexos info_47 = [''I'']
   \<and> resolver_anexo_por_cnae ''47.51-2-01'' 500000 (Some 1000) tabela_exemplo None = Inr ''I''"
proof -
  have h: "anexos info_47 = [''I'']" by (simp add: info_47_def)
  from resolver_anexo_unico [where tabela_cnae = tabela_exemplo, OF tabela_exemplo_47 h,
      of 500000 "Some 1000"] tabela_exemplo_47 h
  show ?thesis by (intro conjI)
qed

text \<open>
  Claim C3: for a record whose set of candidate annexes is exactly \<open>{III, V}\<close> with
  \<open>fator_r\<close> true, and no forced annex: when the payroll is absent or the revenue is not
  positive the result is V, with no error; otherwise it is III when
  \<open>folha / rbt12 \<ge> 0.28\<close> and V when \<open>folha / rbt12 < 0.28\<close>, the tie at exactly
  \<open>0.28\<close> giving III.
\<close>

theorem resolver_anexo_fator_r:
  assumes "tabela_cnae codigo = Some info"
    and "set (anexos info) = {''III'', ''V''}"
    and "fator_r info"
  shows "(folha_12m = None \<or> rbt12 \<le> 0 \<longrightarrow>
            resolver_anexo_por_cnae codigo rbt12 folha_12m tabela_cnae None = Inr ''V'')
       \<and> (\<forall>folha. folha_12m = Some folha \<and> 0 < rbt12 \<longrightarrow>
            (0.28 \<le> folha / rbt12 \<longrightarrow>
               resolver_anexo_por_cnae codigo rbt12 folha_12m tabela_cnae None = Inr ''III'')
          \<and> (folha / rbt12 < 0.28 \<longrightarrow>
               resolver_anexo_por_cnae codigo rbt12 folha_12m tabela_cnae None = Inr ''V''))"
  unfolding resolver_pela_linha [of tabela_cnae codigo info, OF assms]
  by (cases folha_12m) (simp_all add: not_le)

text \<open>
  The ratio \<open>28 / 100\<close> is the tie and gives III, \<open>2799 / 10000\<close> gives V, an absent
  payroll gives V and a revenue of zero gives V.
\<close>

theorem resolver_anexo_fator_r_witness:
  "tabela_exemplo ''62.01-5-01'' = Some info_62
   \<and> set (anexos info_62) = {''III'', ''V''} \<and> fator_r info_62
   \<and> resolver_anexo_por_cnae ''62.01-5-01'' 100 (Some 28) tabela_exemplo None = Inr ''III''
   \<and> resolver_anexo_por_cnae ''62.01-5-01'' 10000 (Some 2799) tabela_exemplo None = Inr ''V''
   \<and> resolver_anexo_por_cnae ''62.01-5-01'' 100 None tabela_exemplo None = Inr ''V''
   \<and> resolver_anexo_por_cnae ''62.01-5-01'' 0 (Some 28) tabela_exemplo None = Inr ''V''"
proof -
  have h2: "set (anexos info_62) = {''III'', ''V''}" and h3: "fator_r info_62"
    by (simp_all add: info_62_def)
  note r = resolver_anexo_fator_r [of tabela_exemplo "''62.01-5-01''" info_62,
      OF tabela_exemplo_62 h2 h3]
  from r [of "Some 28" 100]
  have a: "resolver_anexo_por_cnae ''62.01-5-01'' 100 (Some 28) tabela_exemplo None = Inr ''III''"
    by simp
  from r [of "Some 2799" 10000]
  have b: "resolver_anexo_por_cnae ''62.01-5-01'' 10000 (Some 2799) tabela_exemplo None = Inr ''V''"
    by simp
  from r [of None 100]
  have c: "resolver_anexo_por_cnae ''62.01-5-01'' 100 None tabela_exemplo None = Inr ''V''"
    by simp
  from r [of "Some 28" 0]
  have d: "resolver_anexo_por_cnae ''62.01-5-01'' 0 (Some 28) tabela_exemplo None = Inr ''V''"
    by simp
  from tabela_exemplo_62 h2 h3 a b c d show ?thesis by (intro conjI)
qed

text \<open>
  Claim C10: for a record whose list of candidate annexes is empty (the loader stores the
  empty list when the key is absent), \<open>resolver_anexo_por_cnae\<close> without a forced annex
  returns no annex and raises none of ValueError and KeyError: the last line reads
  \<open>info.anexos[0]\<close> and fails with IndexError.
\<close>

theorem resolver_anexo_lista_vazia:
  assumes "tabela_cnae codigo = Some info" and "anexos info = []"
  shows "resolver_anexo_por_cnae codigo rbt12 folha_12m tabela_cnae None = Inl IndexError"
  using assms by (simp add: resolver_anexo_por_cnae_def informado_def primeiro_def)

text \<open>The record without \<open>anexos\<close> of the sample data, as the loader builds it.\<close>

theorem resolver_anexo_lista_vazia_witness:
  "carregar_tabela_cnae dados_exemplo = Inr tabela_exemplo
   \<and> tabela_exemplo ''00.00-0-00'' = Some info_00 \<and> anexos info_00 = []
   \<and> resolver_anexo_por_cnae ''00.00-0-00'' 500000 (Some 1000) tabela_exemplo None
        = Inl IndexError"
proof -
  have h: "anexos info_00 = []" by (simp add: info_00_def)
  from resolver_anexo_lista_vazia [where tabela_cnae = tabela_exemplo, OF tabela_exemplo_00 h,
      of 500000 "Some 1000"]
    carregar_dados_exemplo tabela_exemplo_00 h
  show ?thesis by (intro conjI)
qed

subsection \<open>The table of nominal rates\<close>

lemma aliquota_da_tabela_definida:
  assumes "a \<in> set ANEXOS" and "f \<in> {1..6}"
  shows "\<exists>x. aliquota_da_tabela a f = Some x \<and> 0 \<le> x \<and> x < 1"
proof -
  from assms(2) have f: "f = 1 \<or> f = 2 \<or> f = 3 \<or> f = 4 \<or> f = 5 \<or> f = 6" by auto
  from assms(1) have a: "a = ''I'' \<or> a = ''II'' \<or> a = ''III'' \<or> a = ''IV'' \<or> a = ''V''"
    by (simp add: ANEXOS_def)
  from a f have "case aliquota_da_tabela a f of None \<Rightarrow> False | Some x \<Rightarrow> 0 \<le> x \<and> x < 1"
    by (elim disjE)
       (simp_all add: aliquota_da_tabela_def ALIQUOTAS_NOMINAIS_def fl_nonneg fl_menor_1)
  then show ?thesis
    by (cases "aliquota_da_tabela a f") simp_all
qed

text \<open>Every rate that the table holds lies in \<open>[0, 1)\<close>.\<close>

lemma aliquotas_em_0_1:
  "\<forall>(a, linha) \<in> set ALIQUOTAS_NOMINAIS. \<forall>(f, x) \<in> set linha. 0 \<le> x \<and> x < 1"
  by (simp add: ALIQUOTAS_NOMINAIS_def fl_nonneg fl_menor_1)

lemma aliquota_da_tabela_Some:
  assumes "aliquota_da_tabela a f = Some x"
  shows "0 \<le> x \<and> x < 1"
proof -
  from assms obtain linha
    where l: "map_of ALIQUOTAS_NOMINAIS a = Some linha" and x: "map_of linha f = Some x"
    by (auto simp add: aliquota_da_tabela_def split: option.splits)
  from l have "(a, linha) \<in> set ALIQUOTAS_NOMINAIS" by (rule map_of_SomeD)
  moreover from x have "(f, x) \<in> set linha" by (rule map_of_SomeD)
  ultimately show ?thesis using aliquotas_em_0_1 by blast
qed

text \<open>
  Claim C5: the table of nominal rates has 5 rows of 6 entries, one row for each annex; every
  annex and every bracket 1..6 has a rate, which (as the double it is) lies in \<open>[0, 1)\<close>; so for every annex and
  every bracket that \<open>faixa_por_rbt12\<close> returns, \<open>aliquota_nominal_por_anexo\<close> succeeds
  and its KeyError branch is not taken.
\<close>

theorem aliquotas_nominais_completas:
  "length ALIQUOTAS_NOMINAIS = 5
   \<and> (\<forall>(a, linha) \<in> set ALIQUOTAS_NOMINAIS. a \<in> set ANEXOS \<and> length linha = 6)
   \<and> (\<forall>a \<in> set ANEXOS. \<forall>f \<in> {1..6}. \<exists>x. aliquota_da_tabela a f = Some x \<and> 0 \<le> x \<and> x < 1)
   \<and> (\<forall>a \<in> set ANEXOS. \<forall>r f. faixa_por_rbt12 r = Inr f \<longrightarrow>
         (\<exists>x. aliquota_nominal_por_anexo a r = Inr (f, x) \<and> 0 \<le> x \<and> x < 1))"
proof (intro conjI)
  show "length ALIQUOTAS_NOMINAIS = 5"
    by (simp add: ALIQUOTAS_NOMINAIS_def)
  show "\<forall>(a, linha) \<in> set ALIQUOTAS_NOMINAIS. a \<in> set ANEXOS \<and> length linha = 6"
    by (simp add: ALIQUOTAS_NOMINAIS_def ANEXOS_def)
  show "\<forall>a \<in> set ANEXOS. \<forall>f \<in> {1..6}. \<exists>x. aliquota_da_tabela a f = Some x \<and> 0 \<le> x \<and> x < 1"
    using aliquota_da_tabela_definida by blast
  show "\<forall>a \<in> set ANEXOS. \<forall>r f. faixa_por_rbt12 r = Inr f \<longrightarrow>
         (\<exists>x. aliquota_nominal_por_anexo a r = Inr (f, x) \<and> 0 \<le> x \<and> x < 1)"
  proof (intro ballI allI impI)
    fix a r f assume a: "a \<in> set ANEXOS" and r: "faixa_por_rbt12 r = Inr f"
    from r have "f \<in> {1..6}" by (rule faixa_por_rbt12_intervalo)
    with a obtain x where "aliquota_da_tabela a f = Some x" "0 \<le> x" "x < 1"
      using aliquota_da_tabela_definida by blast
    with r show "\<exists>x. aliquota_nominal_por_anexo a r = Inr (f, x) \<and> 0 \<le> x \<and> x < 1"
    by (simp add: aliquota_nominal_por_anexo_def)
  qed
qed

text \<open>Annex III at revenue 600000: bracket 3.\<close>

theorem aliquotas_nominais_completas_witness:
  "''III'' \<in> set ANEXOS \<and> (3::int) \<in> {1..6}
   \<and> (\<exists>x. aliquota_da_tabela ''III'' 3 = Some x \<and> 0 \<le> x \<and> x < 1)
   \<and> faixa_por_rbt12 600000 = Inr 3
   \<and> (\<exists>x. aliquota_nominal_por_anexo ''III'' 600000 = Inr (3, x) \<and> 0 \<le> x \<and> x < 1)
   \<and> (''III'', [(1, fl 0.060), (2, fl 0.112), (3, fl 0.135), (4, fl 0.160), (5, fl 0.210),
              (6, fl 0.330)])
        \<in> set ALIQUOTAS_NOMINAIS"
proof -
  have a: "''III'' \<in> set ANEXOS" by (simp add: ANEXOS_def)
  have f: "(3::int) \<in> {1..6}" by simp
  have r: "faixa_por_rbt12 600000 = Inr 3"
    by (simp add: faixa_por_rbt12_casos fl_faixas)
  have m: "(''III'', [(1, fl 0.060), (2, fl 0.112), (3, fl 0.135), (4, fl 0.160), (5, fl 0.210),
              (6, fl 0.330)])
        \<in> set ALIQUOTAS_NOMINAIS"
    by (simp add: ALIQUOTAS_NOMINAIS_def)
  note t = aliquotas_nominais_completas
  from t a f have b: "\<exists>x. aliquota_da_tabela ''III'' 3 = Some x \<and> 0 \<le> x \<and> x < 1"
    by blast
  from t a r
  have c: "\<exists>x. aliquota_nominal_por_anexo ''III'' 600000 = Inr (3, x) \<and> 0 \<le> x \<and> x < 1"
    by blast
  from a f b r c m show ?thesis by (intro conjI)
qed

subsection \<open>The resolved rate\<close>

text \<open>
  The doubles of two results: for the rate \<open>0.112\<close> (annex III, bracket 2) Python prints
  the percentage \<open>11.200000000000001\<close>, and for the revenue \<open>200000.0\<close> the monthly
  average \<open>16666.666666666668\<close>; for the rate \<open>0.095\<close> the percentage is \<open>9.5\<close> and
  for the revenue \<open>500000.0\<close> the monthly average is \<open>41666.666666666664\<close>.
\<close>

lemma fl_pct_0_112: "fl (8070450532247929 / 2 ^ 56 * 100) = 6305039478318695 / 2 ^ 49"
  by (subst fl_eq [of 3]) (simp_all add: power_int_minus rne_def Let_def)

lemma fl_pct_0_095: "fl (3422735716801577 / 2 ^ 55 * 100) = 19 / 2"
  by (subst fl_eq [of 3]) (simp_all add: power_int_minus rne_def Let_def)

lemma fl_mensal_200000: "fl (200000 / 12) = 4581298449066667 / 2 ^ 38"
  by (subst fl_eq [of 14]) (simp_all add: power_int_minus rne_def Let_def)

lemma fl_mensal_500000: "fl (500000 / 12) = 5726623061333333 / 2 ^ 37"
  by (subst fl_eq [of 15]) (simp_all add: power_int_minus rne_def Let_def)

text \<open>The second usage example of the module: commerce, revenue 500000.\<close>

lemma obter_aliquota_exemplo_2:
  "obter_aliquota_por_cnae ''47.51-2-01'' 500000 None tabela_exemplo None =
     Inr \<lparr>res_anexo = ''I'', res_faixa = 3, res_aliquota_nominal = fl 0.095,
          res_aliquota_nominal_pct = fl (fl 0.095 * 100), res_rbt12 = 500000,
          res_faturamento_mensal_medio = fl (500000 / 12)\<rparr>"
  by (simp add: obter_aliquota_por_cnae_def resolver_anexo_por_cnae_def informado_def
      tabela_exemplo_def info_47_def primeiro_def aliquota_nominal_por_anexo_def
      faixa_por_rbt12_casos fl_faixas aliquota_da_tabela_def ALIQUOTAS_NOMINAIS_def)

text \<open>A software code under the Factor R, revenue 200000 and payroll 100000: annex III.\<close>

lemma obter_aliquota_exemplo_fator_r:
  "obter_aliquota_por_cnae ''62.01-5-01'' 200000 (Some 100000) tabela_exemplo None =
     Inr \<lparr>res_anexo = ''III'', res_faixa = 2, res_aliquota_nominal = fl 0.112,
          res_aliquota_nominal_pct = fl (fl 0.112 * 100), res_rbt12 = 200000,
          res_faturamento_mensal_medio = fl (200000 / 12)\<rparr>"
proof -
  have "set (anexos info_62) = {''III'', ''V''}" and "fator_r info_62"
    and "length (anexos info_62) \<noteq> 1"
    by (simp_all add: info_62_def)
  then have "resolver_anexo_por_cnae ''62.01-5-01'' 200000 (Some 100000) tabela_exemplo None
      = Inr ''III''"
    by (simp add: resolver_anexo_por_cnae_def informado_def tabela_exemplo_62)
  then show ?thesis
    by (simp add: obter_aliquota_por_cnae_def aliquota_nominal_por_anexo_def
        faixa_por_rbt12_casos fl_faixas aliquota_da_tabela_def ALIQUOTAS_NOMINAIS_def)
qed

text \<open>
  Claim C6: for a code whose record has a single candidate annex \<open>a\<close>, and no forced annex,
  \<open>obter_aliquota_por_cnae\<close> gives the bracket and rate of composing \<open>faixa_por_rbt12\<close>
  on the revenue with the table entry of \<open>a\<close> and that bracket: it fails as
  \<open>faixa_por_rbt12\<close> fails, succeeds with that bracket and that entry when both exist, and
  fails with the KeyError of the rate lookup when the table has no such entry.
\<close>

theorem obter_aliquota_anexo_unico:
  assumes "tabela_cnae codigo = Some info" and "anexos info = [a]"
  shows "(\<forall>e. faixa_por_rbt12 rbt12 = Inl e \<longrightarrow>
            obter_aliquota_por_cnae codigo rbt12 folha_12m tabela_cnae None = Inl e)
       \<and> (\<forall>f x. faixa_por_rbt12 rbt12 = Inr f \<and> aliquota_da_tabela a f = Some x \<longrightarrow>
            (\<exists>res. obter_aliquota_por_cnae codigo rbt12 folha_12m tabela_cnae None = Inr res
                 \<and> res_anexo res = a \<and> res_faixa res = f \<and> res_aliquota_nominal res = x))
       \<and> (\<forall>f. faixa_por_rbt12 rbt12 = Inr f \<and> aliquota_da_tabela a f = None \<longrightarrow>
            obter_aliquota_por_cnae codigo rbt12 folha_12m tabela_cnae None
              = Inl (KeyError_aliquota_nao_encontrada a f))"
proof -
  have "resolver_anexo_por_cnae codigo rbt12 folha_12m tabela_cnae None = Inr a"
    using assms by (simp add: resolver_anexo_por_cnae_def informado_def primeiro_def)
  then show ?thesis
    by (simp add: obter_aliquota_por_cnae_def aliquota_nominal_por_anexo_def)
qed

text \<open>The commerce code at revenue 500000 (bracket 3 of annex I) and at 5000000 (no bracket).\<close>

theorem obter_aliquota_anexo_unico_witness:
  "tabela_exemplo ''47.51-2-01'' = Some info_47 \<and> anexos info_47 = [''I'']
   \<and> faixa_por_rbt12 500000 = Inr 3 \<and> aliquota_da_tabela ''I'' 3 = Some (fl 0.095)
   \<and> (\<exists>res. obter_aliquota_por_cnae ''47.51-2-01'' 500000 None tabela_exemplo None = Inr res
         \<and> res_anexo res = ''I'' \<and> res_faixa res = 3 \<and> res_aliquota_nominal res = fl 0.095)
   \<and> faixa_por_rbt12 5000000 = Inl ValueError_fora_do_limite
   \<and> obter_aliquota_por_cnae ''47.51-2-01'' 5000000 None tabela_exemplo None
        = Inl ValueError_fora_do_limite"
proof -
  have h: "anexos info_47 = [''I'']" by (simp add: info_47_def)
  have f: "faixa_por_rbt12 500000 = Inr 3"
    by (simp add: faixa_por_rbt12_casos fl_faixas)
  have x: "aliquota_da_tabela ''I'' 3 = Some (fl 0.095)"
    by (simp add: aliquota_da_tabela_def ALIQUOTAS_NOMINAIS_def)
  have g: "faixa_por_rbt12 5000000 = Inl ValueError_fora_do_limite"
    by (simp add: faixa_por_rbt12_casos fl_faixas)
  note r = obter_aliquota_anexo_unico [where tabela_cnae = tabela_exemplo
      and folha_12m = None, OF tabela_exemplo_47 h]
  from r [of 500000] f x
  have a: "\<exists>res. obter_aliquota_por_cnae ''47.51-2-01'' 500000 None tabela_exemplo None = Inr res
         \<and> res_anexo res = ''I'' \<and> res_faixa res = 3 \<and> res_aliquota_nominal res = fl 0.095"
    by blast
  from r [of 5000000] g
  have b: "obter_aliquota_por_cnae ''47.51-2-01'' 5000000 None tabela_exemplo None
        = Inl ValueError_fora_do_limite"
    by blast
  from tabela_exemplo_47 h f x a g b show ?thesis by (intro conjI)
qed

text \<open>
  Claim C9: whenever \<open>obter_aliquota_por_cnae\<close> succeeds, the percentage is the nominal
  rate times 100, the average monthly revenue is the input revenue divided by 12, and the
  revenue field is the input revenue. The product and the quotient are computed in doubles,
  so the two fields are the roundings of these numbers and differ from them: for the software
  code of the sample table at revenue 200000 the rate is the double of \<open>0.112\<close>, the
  percentage is \<open>11.200000000000001\<close> and the monthly average \<open>16666.666666666668\<close>,
  neither of them the exact product or quotient.
\<close>

theorem obter_aliquota_campos_contraexemplo:
  "obter_aliquota_por_cnae ''62.01-5-01'' 200000 (Some 100000) tabela_exemplo None =
     Inr \<lparr>res_anexo = ''III'', res_faixa = 2,
          res_aliquota_nominal = 8070450532247929 / 2 ^ 56,
          res_aliquota_nominal_pct = 6305039478318695 / 2 ^ 49,
          res_rbt12 = 200000,
          res_faturamento_mensal_medio = 4581298449066667 / 2 ^ 38\<rparr>
   \<and> (6305039478318695 / 2 ^ 49 :: real) \<noteq> 8070450532247929 / 2 ^ 56 * 100
   \<and> (4581298449066667 / 2 ^ 38 :: real) \<noteq> 200000 / 12"
proof -
  have "obter_aliquota_por_cnae ''62.01-5-01'' 200000 (Some 100000) tabela_exemplo None =
     Inr \<lparr>res_anexo = ''III'', res_faixa = 2,
          res_aliquota_nominal = 8070450532247929 / 2 ^ 56,
          res_aliquota_nominal_pct = 6305039478318695 / 2 ^ 49,
          res_rbt12 = 200000,
          res_faturamento_mensal_medio = 4581298449066667 / 2 ^ 38\<rparr>"
    using obter_aliquota_exemplo_fator_r
    by (simp only: fl_0_112 fl_pct_0_112 fl_mensal_200000)
  moreover have "(6305039478318695 / 2 ^ 49 :: real) \<noteq> 8070450532247929 / 2 ^ 56 * 100"
    by simp
  moreover have "(4581298449066667 / 2 ^ 38 :: real) \<noteq> 200000 / 12"
    by simp
  ultimately show ?thesis by (intro conjI)
qed

text \<open>What a successful call returns.\<close>

lemma obter_aliquota_sucesso:
  assumes "obter_aliquota_por_cnae codigo rbt12 folha_12m tabela_cnae anexo_forcado = Inr res"
  shows "\<exists>anexo faixa aliq.
           faixa_por_rbt12 rbt12 = Inr faixa \<and> aliquota_da_tabela anexo faixa = Some aliq \<and>
           res = \<lparr>res_anexo = anexo, res_faixa = faixa, res_aliquota_nominal = aliq,
                  res_aliquota_nominal_pct = fl (aliq * 100), res_rbt12 = rbt12,
                  res_faturamento_mensal_medio = fl (rbt12 / 12)\<rparr>"
  using assms
  by (auto simp add: obter_aliquota_por_cnae_def aliquota_nominal_por_anexo_def
      split: sum.splits prod.splits option.splits)

text \<open>
  Claim C9, amended: whenever \<open>obter_aliquota_por_cnae\<close> succeeds, the percentage is the
  double nearest to the nominal rate times 100, the average monthly revenue is the double
  nearest to the input revenue divided by 12 (ties to even in both), and the revenue field is
  the input revenue. The percentage is within \<open>1 / 2 ^ 47\<close> of the exact product and the
  monthly average within \<open>1 / 2 ^ 35\<close> of the exact quotient.
\<close>

theorem obter_aliquota_campos:
  assumes "obter_aliquota_por_cnae codigo rbt12 folha_12m tabela_cnae anexo_forcado = Inr res"
  shows "res_aliquota_nominal_pct res = fl (res_aliquota_nominal res * 100)
       \<and> res_faturamento_mensal_medio res = fl (rbt12 / 12)
       \<and> res_rbt12 res = rbt12
       \<and> \<bar>res_aliquota_nominal_pct res - res_aliquota_nominal res * 100\<bar> \<le> 1 / 2 ^ 47
       \<and> \<bar>res_faturamento_mensal_medio res - rbt12 / 12\<bar> \<le> 1 / 2 ^ 35"
proof -
  from obter_aliquota_sucesso [OF assms] obtain anexo faixa aliq
    where f: "faixa_por_rbt12 rbt12 = Inr faixa"
      and a: "aliquota_da_tabela anexo faixa = Some aliq"
      and r: "res = \<lparr>res_anexo = anexo, res_faixa = faixa, res_aliquota_nominal = aliq,
                  res_aliquota_nominal_pct = fl (aliq * 100), res_rbt12 = rbt12,
                  res_faturamento_mensal_medio = fl (rbt12 / 12)\<rparr>"
    by blast
  from a have "0 \<le> aliq \<and> aliq < 1" by (rule aliquota_da_tabela_Some)
  then have "\<bar>aliq * 100\<bar> < 2 powi (6 + 1)" by simp
  then have "\<bar>fl (aliq * 100) - aliq * 100\<bar> \<le> 2 powi (6 - 53)"
    by (rule fl_erro_abaixo) simp
  then have p: "\<bar>fl (aliq * 100) - aliq * 100\<bar> \<le> 1 / 2 ^ 47"
    by (simp add: power_int_minus_divide)
  from f have "0 \<le> rbt12 \<and> rbt12 \<le> 4800000" by (rule faixa_por_rbt12_dominio)
  then have "\<bar>rbt12 / 12\<bar> < 2 powi (18 + 1)" by simp
  then have "\<bar>fl (rbt12 / 12) - rbt12 / 12\<bar> \<le> 2 powi (18 - 53)"
    by (rule fl_erro_abaixo) simp
  then have m: "\<bar>fl (rbt12 / 12) - rbt12 / 12\<bar> \<le> 1 / 2 ^ 35"
    by (simp add: power_int_minus_divide)
  from p m show ?thesis by (simp add: r)
qed

text \<open>
  The second usage example of the module, commerce at revenue 500000: the percentage is
  \<open>9.5\<close> and the monthly average \<open>41666.666666666664\<close>.
\<close>

theorem obter_aliquota_campos_witness:
  "obter_aliquota_por_cnae ''47.51-2-01'' 500000 None tabela_exemplo None =
     Inr \<lparr>res_anexo = ''I'', res_faixa = 3, res_aliquota_nominal = fl 0.095,
          res_aliquota_nominal_pct = fl (fl 0.095 * 100), res_rbt12 = 500000,
          res_faturamento_mensal_medio = fl (500000 / 12)\<rparr>
   \<and> fl 0.095 = 3422735716801577 / 2 ^ 55
   \<and> fl (fl 0.095 * 100) = 19 / 2
   \<and> fl (500000 / 12) = 5726623061333333 / 2 ^ 37"
proof -
  have "fl (fl 0.095 * 100) = 19 / 2"
    by (simp only: fl_0_095 fl_pct_0_095)
  with obter_aliquota_campos [OF obter_aliquota_exemplo_2] obter_aliquota_exemplo_2
    fl_0_095 fl_mensal_500000
  show ?thesis by (intro conjI)
qed

end
